theory Spec2Isabelle
  imports Main
begin

section \<open>Diagnostic messages (the types after sitemap.ts, and validator.ts)\<close>

text \<open>
  \<^verbatim>\<open>MessageType = 'error' | 'warning' | 'info'\<close>.  The raw message of the W3C API carries
  its type and subType as free strings; the optional fields are options.
\<close>

datatype MessageType = Error | Warning | Info

record RawMessage =
  raw_type :: string
  raw_subType :: "string option"
  raw_message :: string
  raw_extract :: "string option"
  raw_firstLine :: "nat option"
  raw_lastLine :: "nat option"
  raw_firstColumn :: "nat option"
  raw_lastColumn :: "nat option"

record W3CMessage =
  mtype :: MessageType
  message :: string
  extract_text :: "string option"
  firstLine :: "nat option"
  lastLine :: "nat option"
  firstColumn :: "nat option"
  lastColumn :: "nat option"
  subType :: "string option"

definition normalizeType :: "string \<Rightarrow> string option \<Rightarrow> MessageType" where
  "normalizeType t st =
     (if t = ''error'' then Error
      else if t = ''info'' \<and> st = Some ''warning'' then Warning
      else Info)"

definition mapMessage :: "RawMessage \<Rightarrow> W3CMessage" where
  "mapMessage msg =
     \<lparr> mtype = normalizeType (raw_type msg) (raw_subType msg),
       message = raw_message msg,
       extract_text = raw_extract msg,
       firstLine = raw_firstLine msg,
       lastLine = raw_lastLine msg,
       firstColumn = raw_firstColumn msg,
       lastColumn = raw_lastColumn msg,
       subType = raw_subType msg \<rparr>"

definition mapMessages :: "RawMessage list \<Rightarrow> W3CMessage list" where
  "mapMessages data = map mapMessage data"

section \<open>Page results and reports (the types after sitemap.ts)\<close>

datatype PageStatus = Clean | Warnings | Errors | Failed

record PageResult =
  url :: string
  sourceUrl :: string
  messages :: "W3CMessage list"
  status :: PageStatus
  errorMessage :: "string option"
  duration :: "nat option"

record ReportSummary =
  totalPages :: nat
  pagesWithErrors :: nat
  pagesWithWarnings :: nat
  pagesClean :: nat
  pagesFailed :: nat
  totalErrors :: nat
  totalWarnings :: nat
  totalInfos :: nat
  generatedAt :: string
  sitemapUrl :: string

record Report =
  summary :: ReportSummary
  pages :: "PageResult list"

section \<open>The collaborators\<close>

text \<open>
  A parsed URL (the components of the platform's \<^verbatim>\<open>URL\<close> object), an entry of a parsed
  sitemap (a \<^verbatim>\<open>Record<string, string>\<close>, of which only \<^verbatim>\<open>loc\<close> is read) and a parsed XML
  document (the two roots the code tests for truthiness: \<open>None\<close> is a falsy root,
  \<open>Some es\<close> a truthy one whose \<^verbatim>\<open>sitemap ?? []\<close> or \<^verbatim>\<open>url ?? []\<close> is \<open>es\<close>).
\<close>

record URL =
  protocol :: string
  username :: string
  password :: string
  hostname :: string
  port :: string
  pathname :: string
  search :: string
  hash :: string

record entry =
  loc :: "string option"

record parsed_xml =
  sitemapindex :: "entry list option"
  urlset :: "entry list option"

text \<open>
  Everything the repository calls and does not define is a field of \<open>world\<close>: the URL
  class (\<open>url_parse\<close> is \<^verbatim>\<open>new URL(s)\<close>, \<open>None\<close> when it throws), the XML parser, the HTTP client
  (\<open>http_get\<close> is \<^verbatim>\<open>axios.get\<close> with a text response: the body, or \<open>Inl\<close> the message of the
  error thrown), the two requests to the W3C checker (\<open>w3c_post\<close> sends markup, \<open>w3c_get\<close>
  names a document; each gives the \<^verbatim>\<open>messages\<close> of the response, or \<open>Inl\<close> the message of
  the error), the clock (\<open>elapsed i\<close> is the \<^verbatim>\<open>Date.now() - start\<close> of task \<open>i\<close>, \<open>now_iso\<close> the
  time stamp of the summary) and the renderer of the HTML report.
\<close>

record world =
  url_parse :: "string \<Rightarrow> URL option"
  url_href :: "URL \<Rightarrow> string"
  url_origin :: "URL \<Rightarrow> string"
  xml_parse :: "string \<Rightarrow> parsed_xml"
  http_get :: "string \<Rightarrow> string + string"
  w3c_post :: "string \<Rightarrow> string + RawMessage list"
  w3c_get :: "string \<Rightarrow> string + RawMessage list"
  elapsed :: "nat \<Rightarrow> nat"
  now_iso :: string
  generateHtmlReport :: "Report \<Rightarrow> string"

section \<open>utils.ts\<close>

text \<open>
  \<^verbatim>\<open>new URL(s)\<close>, \<^verbatim>\<open>toString()\<close> and \<^verbatim>\<open>origin\<close> belong to the runtime: the parser, the
  serialiser and the origin come from the \<open>world\<close>. An assignment
  \<^verbatim>\<open>loc.protocol = base.protocol\<close> is taken as written, a field update of the parsed URL
  (what the runtime's setters do for the \<^verbatim>\<open>http\<close> and \<^verbatim>\<open>https\<close> URLs of a sitemap; the cases
  in which a setter of the runtime leaves the URL as it is are not modelled). A string that
  does not parse makes the constructor throw (\<open>Inl\<close> the message).
\<close>

definition resolveUrlToBase :: "world \<Rightarrow> string \<Rightarrow> string \<Rightarrow> string + string" where
  "resolveUrlToBase w locUrl baseUrl =
     (case url_parse w locUrl of
        None \<Rightarrow> Inl ''Invalid URL''
      | Some loc_u \<Rightarrow>
          (case url_parse w baseUrl of
             None \<Rightarrow> Inl ''Invalid URL''
           | Some base_u \<Rightarrow>
               Inr (url_href w
                      (loc_u\<lparr> protocol := protocol base_u,
                              hostname := hostname base_u,
                              port := port base_u \<rparr>))))"

definition getOrigin :: "world \<Rightarrow> string \<Rightarrow> string + string" where
  "getOrigin w u =
     (case url_parse w u of
        None \<Rightarrow> Inl ''Invalid URL''
      | Some parsed \<Rightarrow> Inr (url_origin w parsed))"

text \<open>\<^verbatim>\<open>String.prototype.includes\<close>: the argument occurs as a contiguous substring.\<close>

fun str_includes :: "string \<Rightarrow> string \<Rightarrow> bool" where
  "str_includes [] t = (t = [])"
| "str_includes (c # cs) t = (take (length t) (c # cs) = t \<or> str_includes cs t)"

definition isLocalhost :: "world \<Rightarrow> string \<Rightarrow> bool" where
  "isLocalhost w u =
     (case url_parse w u of
        Some parsed \<Rightarrow> hostname parsed = ''localhost'' \<or> hostname parsed = ''127.0.0.1''
      | None \<Rightarrow> str_includes u ''localhost'' \<or> str_includes u ''127.0.0.1'')"

text \<open>
  \<^verbatim>\<open>String.prototype.trim\<close> on the ASCII white space and line terminators (tab, line
  feed, vertical tab, form feed, carriage return, space).
\<close>

definition is_space :: "char \<Rightarrow> bool" where
  "is_space c = (c \<in> set [CHR 0x09, CHR 0x0A, CHR 0x0B, CHR 0x0C, CHR 0x0D, CHR 0x20])"

definition trim :: "string \<Rightarrow> string" where
  "trim s = rev (dropWhile is_space (rev (dropWhile is_space s)))"

section \<open>Sitemaps (sitemap.ts)\<close>

definition MAX_DEPTH :: nat where
  "MAX_DEPTH = 3"

text \<open>
  \<^verbatim>\<open>.map((entry) => entry.loc).filter((loc) => typeof loc === 'string' && loc.length > 0)\<close>
\<close>

definition locs :: "entry list \<Rightarrow> string list" where
  "locs es = concat (map (\<lambda>e. case loc e of None \<Rightarrow> [] | Some l \<Rightarrow> if l = [] then [] else [l]) es)"

text \<open>
  \<open>extractUrlsFromSitemap\<close> (the command line's resolver): the depth guard comes before the
  fetch; a failed fetch and an unrecognised document throw; the loop over the entries of
  an index (\<open>extractNested\<close>, with the accumulator \<^verbatim>\<open>urls\<close>) calls the function again at
  \<open>depth + 1\<close> for every truthy \<^verbatim>\<open>loc\<close>, and an exception of the nested call leaves the
  loop.
\<close>

function (sequential)
  extractUrlsFromSitemap :: "world \<Rightarrow> string \<Rightarrow> nat \<Rightarrow> string + string list" and
  extractNested :: "world \<Rightarrow> entry list \<Rightarrow> nat \<Rightarrow> string list \<Rightarrow> string + string list"
where
  "extractUrlsFromSitemap w sm_url depth =
     (if depth > MAX_DEPTH then Inr []
      else
        (case http_get w sm_url of
           Inl msg \<Rightarrow> Inl (''Failed to fetch sitemap at '' @ sm_url @ '': '' @ msg)
         | Inr xmlText \<Rightarrow>
             (case sitemapindex (xml_parse w xmlText) of
                Some sitemaps \<Rightarrow> extractNested w sitemaps depth []
              | None \<Rightarrow>
                  (case urlset (xml_parse w xmlText) of
                     Some urlEntries \<Rightarrow> Inr (locs urlEntries)
                   | None \<Rightarrow> Inl (''Unrecognized sitemap format at '' @ sm_url)))))"
| "extractNested w [] depth urls = Inr urls"
| "extractNested w (e # es) depth urls =
     (case loc e of
        None \<Rightarrow> extractNested w es depth urls
      | Some l \<Rightarrow>
          if l = [] then extractNested w es depth urls
          else
            (case extractUrlsFromSitemap w l (depth + 1) of
               Inl err \<Rightarrow> Inl err
             | Inr nested \<Rightarrow> extractNested w es depth (urls @ nested)))"
  by pat_completeness auto
termination
  by (relation "measures
        [\<lambda>x. case x of Inl (w, u, d) \<Rightarrow> 2 * (5 - d) | Inr (w, es, d, acc) \<Rightarrow> 2 * (4 - d) + 1,
         \<lambda>x. case x of Inl (w, u, d) \<Rightarrow> 0 | Inr (w, es, d, acc) \<Rightarrow> length es]")
     (auto simp: MAX_DEPTH_def)

declare extractUrlsFromSitemap.simps [simp del]

datatype ParseResult = Urls "string list" | SitemapIndex "string list"

definition parseUrlsFromXml :: "world \<Rightarrow> string \<Rightarrow> string + ParseResult" where
  "parseUrlsFromXml w xmlText =
     (case urlset (xml_parse w xmlText) of
        Some urlEntries \<Rightarrow> Inr (Urls (locs urlEntries))
      | None \<Rightarrow>
          (case sitemapindex (xml_parse w xmlText) of
             Some sitemaps \<Rightarrow> Inr (SitemapIndex (locs sitemaps))
           | None \<Rightarrow>
               Inl ''Unrecognized XML format. Expected a sitemap <urlset> with <url> entries.''))"

section \<open>The job registry (the server, after the README)\<close>

text \<open>
  The events of the stream, one constructor per \<^verbatim>\<open>type\<close> tag with its payload. The server
  buffers and sends the string \<^verbatim>\<open>data: <JSON of the event>\<close>; the model keeps the event.
\<close>

datatype event =
    Sitemap_error string
  | Sitemapindex_resolving nat "string list"
  | Sitemapindex_fetching string
  | Sitemapindex_fetched string nat
  | Sitemapindex_fetch_error string string
  | Sitemapindex_resolved nat
  | Sitemap_done nat "string list"
  | Page_fetching nat string
  | Page_validating nat string
  | Page_done nat string PageStatus "W3CMessage list" "nat option" "string option"
  | Cancelled
  | Done ReportSummary
  | Stream_end

text \<open>
  \<^verbatim>\<open>interface Job { buffered; listeners; report; done; aborted }\<close>. A listener is the
  closure of one stream request; it is named by the number of its connection. (The field
  \<^verbatim>\<open>done\<close> is \<open>job_done\<close> here.)
\<close>

record Job =
  buffered :: "event list"
  listeners :: "nat set"
  report :: "string option"
  job_done :: bool
  aborted :: bool

text \<open>
  The response of a stream request: what was written to it, and whether \<^verbatim>\<open>res.end()\<close> was
  called. A write to an ended response delivers nothing.
\<close>

record response =
  written :: "event list"
  res_ended :: bool

text \<open>
  What arrives from outside while \<open>runValidation\<close> waits: a POST to the abort route, a GET
  of the stream route (a new connection), the close of a connection.
\<close>

datatype request = Abort | Stream nat | Close nat

text \<open>
  The state of one job and its run: the job, the responses of its connections, and of
  \<open>runValidation\<close> the local array \<^verbatim>\<open>results\<close>, the delays it has slept (\<open>timers\<close>), the
  message of a rejection left to \<^verbatim>\<open>.catch(console.error)\<close> (\<open>console\<close>), and the requests
  still to arrive (\<open>pending\<close>: one batch for each time the run waits for the network or a
  timer, in order).
\<close>

record run =
  job :: Job
  res :: "nat \<Rightarrow> response"
  results :: "PageResult option list"
  timers :: "nat list"
  console :: "string list"
  pending :: "request list list"

definition createJob :: Job where
  "createJob = \<lparr> buffered = [], listeners = {}, report = None, job_done = False, aborted = False \<rparr>"

text \<open>
  The listener of the stream route:
  \<^verbatim>\<open>(d) => { res.write(d); if (d.includes('"stream_end"')) res.end() }\<close>
\<close>

definition res_write :: "response \<Rightarrow> event \<Rightarrow> response" where
  "res_write r d = (if res_ended r then r else r\<lparr> written := written r @ [d] \<rparr>)"

definition listener :: "response \<Rightarrow> event \<Rightarrow> response" where
  "listener r d =
     (let r1 = res_write r d in if d = Stream_end then r1\<lparr> res_ended := True \<rparr> else r1)"

definition emit :: "run \<Rightarrow> event \<Rightarrow> run" where
  "emit st ev =
     st\<lparr> job := (job st)\<lparr> buffered := buffered (job st) @ [ev] \<rparr>,
         res := (\<lambda>i. if i \<in> listeners (job st) then listener (res st i) ev else res st i) \<rparr>"

definition endJob :: "run \<Rightarrow> run" where
  "endJob st = (let st1 = emit st Stream_end in st1\<lparr> job := (job st1)\<lparr> job_done := True \<rparr> \<rparr>)"

text \<open>The routes \<^verbatim>\<open>POST /api/abort/:id\<close> and \<^verbatim>\<open>GET /api/stream/:id\<close>, and the close of a request.\<close>

definition abort_route :: "run \<Rightarrow> run" where
  "abort_route st = endJob (emit (st\<lparr> job := (job st)\<lparr> aborted := True \<rparr> \<rparr>) Cancelled)"

definition stream_route :: "nat \<Rightarrow> run \<Rightarrow> run" where
  "stream_route i st =
     (let replayed = \<lparr> written = buffered (job st), res_ended = False \<rparr> in
      if job_done (job st)
      then st\<lparr> res := (res st)(i := replayed\<lparr> res_ended := True \<rparr>) \<rparr>
      else st\<lparr> res := (res st)(i := replayed),
               job := (job st)\<lparr> listeners := insert i (listeners (job st)) \<rparr> \<rparr>)"

definition close_request :: "nat \<Rightarrow> run \<Rightarrow> run" where
  "close_request i st = st\<lparr> job := (job st)\<lparr> listeners := listeners (job st) - {i} \<rparr> \<rparr>"

fun serve :: "request \<Rightarrow> run \<Rightarrow> run" where
  "serve Abort st = abort_route st"
| "serve (Stream i) st = stream_route i st"
| "serve (Close i) st = close_request i st"

text \<open>
  An \<^verbatim>\<open>await\<close> of the network or of a timer: the requests that arrive meanwhile are served
  before the run goes on.
\<close>

definition await_io :: "run \<Rightarrow> run" where
  "await_io st =
     (case pending st of
        [] \<Rightarrow> st
      | batch # later \<Rightarrow> fold serve batch (st\<lparr> pending := later \<rparr>))"

section \<open>The validation pipeline (the server, after the README)\<close>

definition fetchPageHtml :: "world \<Rightarrow> string \<Rightarrow> string + string" where
  "fetchPageHtml w u = http_get w u"

definition validateHtml :: "world \<Rightarrow> string \<Rightarrow> string + W3CMessage list" where
  "validateHtml w html = (case w3c_post w html of Inl err \<Rightarrow> Inl err | Inr data \<Rightarrow> Inr (mapMessages data))"

definition validateUrl :: "world \<Rightarrow> string \<Rightarrow> string + W3CMessage list" where
  "validateUrl w u = (case w3c_get w u of Inl err \<Rightarrow> Inl err | Inr data \<Rightarrow> Inr (mapMessages data))"

text \<open>
  \<open>validateLocal\<close> is the pair of lines \<^verbatim>\<open>const html = await fetchPageHtml(url); return
  validateHtml(html)\<close>, which \<open>validatePage\<close> has twice.
\<close>

definition validateLocal :: "world \<Rightarrow> string \<Rightarrow> string + W3CMessage list" where
  "validateLocal w u = (case fetchPageHtml w u of Inl err \<Rightarrow> Inl err | Inr html \<Rightarrow> validateHtml w html)"

definition validatePage :: "world \<Rightarrow> string \<Rightarrow> string + W3CMessage list" where
  "validatePage w u =
     (if isLocalhost w u then validateLocal w u
      else (case validateUrl w u of Inr msgs \<Rightarrow> Inr msgs | Inl _ \<Rightarrow> validateLocal w u))"

text \<open>
  The body of the \<^verbatim>\<open>try\<close> and of the \<^verbatim>\<open>catch\<close> of a page task: the result of the page.
\<close>

definition count_type :: "MessageType \<Rightarrow> W3CMessage list \<Rightarrow> nat" where
  "count_type k msgs = length (filter (\<lambda>m. mtype m = k) msgs)"

definition pageStatus :: "W3CMessage list \<Rightarrow> PageStatus" where
  "pageStatus msgs =
     (if count_type Error msgs > 0 then Errors
      else if count_type Warning msgs > 0 then Warnings
      else Clean)"

definition pageResult :: "world \<Rightarrow> nat \<Rightarrow> string \<Rightarrow> string \<Rightarrow> PageResult" where
  "pageResult w index source resolved =
     (case validatePage w resolved of
        Inr msgs \<Rightarrow>
          \<lparr> url = resolved, sourceUrl = source, messages = msgs, status = pageStatus msgs,
            errorMessage = None, duration = Some (elapsed w index) \<rparr>
      | Inl err \<Rightarrow>
          \<lparr> url = resolved, sourceUrl = source, messages = [], status = Failed,
            errorMessage = Some err, duration = Some (elapsed w index) \<rparr>)"

text \<open>
  One task of \<^verbatim>\<open>limit(async () => ...)\<close>. It waits twice: for \<open>validatePage\<close> and for
  \<^verbatim>\<open>sleep(1000)\<close>. \<open>page_validating\<close> is emitted in the \<^verbatim>\<open>try\<close>, after the checker has
  answered.
\<close>

definition runTask :: "world \<Rightarrow> nat \<times> string \<times> string \<Rightarrow> run \<Rightarrow> run" where
  "runTask w task st =
     (case task of (index, source, resolved) \<Rightarrow>
        if aborted (job st) then st
        else
          (let st1 = await_io (emit st (Page_fetching index resolved));
               st2 = (case validatePage w resolved of
                        Inr _ \<Rightarrow> emit st1 (Page_validating index resolved)
                      | Inl _ \<Rightarrow> st1);
               r = pageResult w index source resolved;
               st3 = st2\<lparr> results := (results st2)[index := Some r] \<rparr>;
               st4 = emit st3 (Page_done index (url r) (status r) (messages r)
                                 (duration r) (errorMessage r))
           in await_io (st4\<lparr> timers := timers st4 @ [1000] \<rparr>)))"

text \<open>
  \<^verbatim>\<open>const limit = pLimit(1)\<close>: one task at a time, in the order of the list; the next task
  starts when the one before has returned, its sleep included.
\<close>

definition runTasks :: "world \<Rightarrow> (nat \<times> string \<times> string) list \<Rightarrow> run \<Rightarrow> run" where
  "runTasks w tasks st = fold (runTask w) tasks st"

definition valid_results :: "PageResult option list \<Rightarrow> PageResult list" where
  "valid_results rs = List.map_filter (\<lambda>r. r) rs"

definition count_status :: "PageStatus \<Rightarrow> PageResult list \<Rightarrow> nat" where
  "count_status k valid = length (filter (\<lambda>r. status r = k) valid)"

definition total_type :: "MessageType \<Rightarrow> PageResult list \<Rightarrow> nat" where
  "total_type k valid = foldl (\<lambda>s r. s + count_type k (messages r)) 0 valid"

definition summarize :: "world \<Rightarrow> string \<Rightarrow> PageResult list \<Rightarrow> ReportSummary" where
  "summarize w baseUrl valid =
     \<lparr> totalPages = length valid,
       pagesWithErrors = count_status Errors valid,
       pagesWithWarnings = count_status Warnings valid,
       pagesClean = count_status Clean valid,
       pagesFailed = count_status Failed valid,
       totalErrors = total_type Error valid,
       totalWarnings = total_type Warning valid,
       totalInfos = total_type Info valid,
       generatedAt = now_iso w,
       sitemapUrl = baseUrl \<rparr>"

text \<open>
  The second half of \<open>runValidation\<close>, from \<^verbatim>\<open>emit sitemap_done\<close> on: the tasks, then the
  summary, the report, \<open>done\<close> and the end of the job.
\<close>

definition validatePages :: "world \<Rightarrow> string \<Rightarrow> (string \<times> string) list \<Rightarrow> run \<Rightarrow> run" where
  "validatePages w baseUrl resolvedUrls st =
     (let st1 = emit st (Sitemap_done (length resolvedUrls) (map snd resolvedUrls));
          st2 = st1\<lparr> results := replicate (length resolvedUrls) None \<rparr>;
          st3 = runTasks w (zip [0..<length resolvedUrls] resolvedUrls) st2;
          valid = valid_results (results st3);
          sm = summarize w baseUrl valid;
          st4 = st3\<lparr> job := (job st3)\<lparr> report :=
                    Some (generateHtmlReport w \<lparr> summary = sm, pages = valid \<rparr>) \<rparr> \<rparr>
      in endJob (emit st4 (Done sm)))"

text \<open>
  The loop over the nested sitemaps of an index. The \<^verbatim>\<open>try\<close> holds the fetch and the parse:
  either failing gives \<open>sitemapindex_fetch_error\<close>. A nested document that is itself an
  index passes the \<^verbatim>\<open>if (nested.kind === 'urls')\<close> by: nothing is pushed and nothing emitted.
\<close>

fun fetchNested :: "world \<Rightarrow> string list \<Rightarrow> string list \<Rightarrow> run \<Rightarrow> string list \<times> run" where
  "fetchNested w [] rawUrls st = (rawUrls, st)"
| "fetchNested w (u # us) rawUrls st =
     (let st1 = await_io (emit st (Sitemapindex_fetching u)) in
      case http_get w u of
        Inl err \<Rightarrow> fetchNested w us rawUrls (emit st1 (Sitemapindex_fetch_error u err))
      | Inr body \<Rightarrow>
          (case parseUrlsFromXml w body of
             Inl err \<Rightarrow> fetchNested w us rawUrls (emit st1 (Sitemapindex_fetch_error u err))
           | Inr (Urls nested) \<Rightarrow>
               fetchNested w us (rawUrls @ nested) (emit st1 (Sitemapindex_fetched u (length nested)))
           | Inr (SitemapIndex _) \<Rightarrow> fetchNested w us rawUrls st1))"

definition resolveSitemap :: "world \<Rightarrow> ParseResult \<Rightarrow> run \<Rightarrow> string list \<times> run" where
  "resolveSitemap w result st =
     (case result of
        Urls us \<Rightarrow> (us, st)
      | SitemapIndex sms \<Rightarrow>
          (case fetchNested w sms [] (emit st (Sitemapindex_resolving (length sms) sms)) of
             (rawUrls, st1) \<Rightarrow> (rawUrls, emit st1 (Sitemapindex_resolved (length rawUrls)))))"

text \<open>\<^verbatim>\<open>rawUrls.map((url) => ({ source: url, resolved: resolveUrlToBase(url, baseUrl) }))\<close>\<close>

fun resolveAll :: "world \<Rightarrow> string \<Rightarrow> string list \<Rightarrow> string + (string \<times> string) list" where
  "resolveAll w baseUrl [] = Inr []"
| "resolveAll w baseUrl (u # us) =
     (case resolveUrlToBase w u baseUrl of
        Inl err \<Rightarrow> Inl err
      | Inr r \<Rightarrow>
          (case resolveAll w baseUrl us of
             Inl err \<Rightarrow> Inl err
           | Inr rs \<Rightarrow> Inr ((u, r) # rs)))"

text \<open>
  The body of \<^verbatim>\<open>POST /api/validate\<close> as the page posts it. The signature of \<open>runValidation\<close>
  is \<^verbatim>\<open>params: { xml: string; base: string }\<close>.
\<close>

record params =
  xml :: string
  base :: string
  concurrency :: nat
  delay :: nat

definition runValidation :: "world \<Rightarrow> params \<Rightarrow> run \<Rightarrow> run" where
  "runValidation w ps st =
     (case parseUrlsFromXml w (xml ps) of
        Inl err \<Rightarrow> endJob (emit st (Sitemap_error err))
      | Inr result \<Rightarrow>
          (case resolveSitemap w result st of
             (rawUrls, st1) \<Rightarrow>
               (case rawUrls of
                  [] \<Rightarrow> endJob (emit st1 (Sitemap_error ''No <url> entries found in the sitemap XML.''))
                | first # _ \<Rightarrow>
                    (case (if trim (base ps) \<noteq> [] then Inr (trim (base ps)) else getOrigin w first) of
                       Inl err \<Rightarrow> st1\<lparr> console := console st1 @ [err] \<rparr>
                     | Inr baseUrl \<Rightarrow>
                         (case resolveAll w baseUrl rawUrls of
                            Inl err \<Rightarrow> st1\<lparr> console := console st1 @ [err] \<rparr>
                          | Inr resolvedUrls \<Rightarrow> validatePages w baseUrl resolvedUrls st1)))))"

text \<open>A new job and the run about to start on it, with the requests that will arrive.\<close>

definition start :: "request list list \<Rightarrow> run" where
  "start reqs =
     \<lparr> job = createJob, res = (\<lambda>_. \<lparr> written = [], res_ended = False \<rparr>),
       results = [], timers = [], console = [], pending = reqs \<rparr>"

section \<open>Notions used to state the properties\<close>

text \<open>
  The events the abort route appends for a batch of requests, the batch that arrives at
  the next wait, and the events one task that runs appends (its own, and those of the
  aborts that arrive while it waits for the checker and while it sleeps).
\<close>

definition cancellations :: "request list \<Rightarrow> event list" where
  "cancellations batch = concat (map (\<lambda>r. if r = Abort then [Cancelled, Stream_end] else []) batch)"

definition arriving :: "request list list \<Rightarrow> request list" where
  "arriving reqs = (case reqs of [] \<Rightarrow> [] | batch # _ \<Rightarrow> batch)"

definition page_events :: "world \<Rightarrow> nat \<Rightarrow> string \<Rightarrow> string \<Rightarrow> request list list \<Rightarrow> event list" where
  "page_events w i s r reqs =
     [Page_fetching i r] @ cancellations (arriving reqs) @
     (case validatePage w r of Inr _ \<Rightarrow> [Page_validating i r] | Inl _ \<Rightarrow> []) @
     [Page_done i (url (pageResult w i s r)) (status (pageResult w i s r))
        (messages (pageResult w i s r)) (duration (pageResult w i s r))
        (errorMessage (pageResult w i s r))] @
     cancellations (arriving (tl reqs))"

text \<open>No abort has been observed and none will arrive.\<close>

definition no_abort :: "run \<Rightarrow> bool" where
  "no_abort st = (\<not> aborted (job st) \<and> (\<forall>batch \<in> set (pending st). Abort \<notin> set batch))"

text \<open>The index of a page event, and whether an event is a \<open>page_done\<close>.\<close>

fun page_index :: "event \<Rightarrow> nat option" where
  "page_index (Page_fetching i _) = Some i"
| "page_index (Page_validating i _) = Some i"
| "page_index (Page_done i _ _ _ _ _) = Some i"
| "page_index _ = None"

fun is_page_done :: "event \<Rightarrow> bool" where
  "is_page_done (Page_done _ _ _ _ _ _) = True"
| "is_page_done _ = False"

definition page_indices :: "event list \<Rightarrow> nat list" where
  "page_indices evs = List.map_filter page_index evs"

definition page_dones :: "event list \<Rightarrow> nat" where
  "page_dones evs = length (filter is_page_done evs)"

text \<open>
  The write of a task into its slot of \<^verbatim>\<open>results\<close>, and the results of all pages of a list
  of resolved URLs.
\<close>

definition store :: "world \<Rightarrow> nat \<times> string \<times> string \<Rightarrow> PageResult option list \<Rightarrow> PageResult option list" where
  "store w t rs = (case t of (i, s, r) \<Rightarrow> rs[i := Some (pageResult w i s r)])"

definition page_results :: "world \<Rightarrow> (string \<times> string) list \<Rightarrow> PageResult list" where
  "page_results w us = map (\<lambda>(i, s, r). pageResult w i s r) (zip [0..<length us] us)"



section \<open>A small world for concrete runs\<close>

text \<open>
  A site \<^verbatim>\<open>https://e.com\<close> with two pages. The sitemap \<^verbatim>\<open>s.xml\<close> (the text \<open>S\<close>) lists
  both, and so does the text \<open>T\<close>, in the other order; the index
  \<^verbatim>\<open>i.xml\<close> names the index \<^verbatim>\<open>j.xml\<close>, which names \<^verbatim>\<open>s.xml\<close>. The checker cannot read page
  \<^verbatim>\<open>/a\<close> and the page cannot be fetched either; page \<^verbatim>\<open>/b\<close> has one warning. The documents
  are named by short texts: the XML parser is a collaborator.
\<close>

definition e_url :: "string \<Rightarrow> URL" where
  "e_url p = \<lparr> protocol = ''https:'', username = [], password = [], hostname = ''e.com'',
               port = [], pathname = p, search = [], hash = [] \<rparr>"

definition e_href :: "URL \<Rightarrow> string" where
  "e_href u = protocol u @ ''//'' @ hostname u @ (if port u = [] then [] else '':'' @ port u)
                @ pathname u @ search u @ hash u"

definition e_origin :: "URL \<Rightarrow> string" where
  "e_origin u = protocol u @ ''//'' @ hostname u @ (if port u = [] then [] else '':'' @ port u)"

definition e_parse :: "string \<Rightarrow> URL option" where
  "e_parse s =
     (if s = ''https://e.com/a'' then Some (e_url ''/a'')
      else if s = ''https://e.com/b'' then Some (e_url ''/b'')
      else if s = ''https://e.com'' then Some (e_url ''/'')
      else if s = ''http://localhost:3000'' then
        Some ((e_url ''/'')\<lparr> protocol := ''http:'', hostname := ''localhost'', port := ''3000'' \<rparr>)
      else None)"

definition e_xml :: "string \<Rightarrow> parsed_xml" where
  "e_xml t =
     (if t = ''S'' then
        \<lparr> sitemapindex = None,
          urlset = Some [\<lparr> loc = Some ''https://e.com/a'' \<rparr>, \<lparr> loc = Some ''https://e.com/b'' \<rparr>] \<rparr>
      else if t = ''T'' then
        \<lparr> sitemapindex = None,
          urlset = Some [\<lparr> loc = Some ''https://e.com/b'' \<rparr>, \<lparr> loc = Some ''https://e.com/a'' \<rparr>] \<rparr>
      else if t = ''I'' then
        \<lparr> sitemapindex = Some [\<lparr> loc = Some ''https://e.com/j.xml'' \<rparr>], urlset = None \<rparr>
      else if t = ''J'' then
        \<lparr> sitemapindex = Some [\<lparr> loc = Some ''https://e.com/s.xml'' \<rparr>], urlset = None \<rparr>
      else \<lparr> sitemapindex = None, urlset = None \<rparr>)"

definition e_get :: "string \<Rightarrow> string + string" where
  "e_get u =
     (if u = ''https://e.com/s.xml'' then Inr ''S''
      else if u = ''https://e.com/i.xml'' then Inr ''I''
      else if u = ''https://e.com/j.xml'' then Inr ''J''
      else if u = ''https://e.com/b'' then Inr ''B''
      else Inl ''404'')"

definition e_warning :: RawMessage where
  "e_warning =
     \<lparr> raw_type = ''info'', raw_subType = Some ''warning'', raw_message = ''w'',
       raw_extract = None, raw_firstLine = None, raw_lastLine = None,
       raw_firstColumn = None, raw_lastColumn = None \<rparr>"

definition e_world :: world where
  "e_world =
     \<lparr> url_parse = e_parse, url_href = e_href, url_origin = e_origin, xml_parse = e_xml,
       http_get = e_get,
       w3c_post = (\<lambda>html. Inr []),
       w3c_get = (\<lambda>u. if u = ''https://e.com/b'' then Inr [e_warning] else Inl ''500''),
       elapsed = (\<lambda>i. 7), now_iso = ''T'', generateHtmlReport = (\<lambda>r. ''R'') \<rparr>"

definition e_params :: "string \<Rightarrow> params" where
  "e_params x = \<lparr> xml = x, base = [], concurrency = 1, delay = 1000 \<rparr>"

section \<open>What each operation does to the fields of the state\<close>

lemma emit_fields [simp]:
  "buffered (job (emit st ev)) = buffered (job st) @ [ev]"
  "listeners (job (emit st ev)) = listeners (job st)"
  "report (job (emit st ev)) = report (job st)"
  "job_done (job (emit st ev)) = job_done (job st)"
  "aborted (job (emit st ev)) = aborted (job st)"
  "results (emit st ev) = results st"
  "timers (emit st ev) = timers st"
  "console (emit st ev) = console st"
  "pending (emit st ev) = pending st"
  by (simp_all add: emit_def)

lemma endJob_fields [simp]:
  "buffered (job (endJob st)) = buffered (job st) @ [Stream_end]"
  "listeners (job (endJob st)) = listeners (job st)"
  "report (job (endJob st)) = report (job st)"
  "job_done (job (endJob st))"
  "aborted (job (endJob st)) = aborted (job st)"
  "results (endJob st) = results st"
  "timers (endJob st) = timers st"
  "console (endJob st) = console st"
  "pending (endJob st) = pending st"
  by (simp_all add: endJob_def Let_def)

lemma abort_route_fields [simp]:
  "buffered (job (abort_route st)) = buffered (job st) @ [Cancelled, Stream_end]"
  "listeners (job (abort_route st)) = listeners (job st)"
  "report (job (abort_route st)) = report (job st)"
  "job_done (job (abort_route st))"
  "aborted (job (abort_route st))"
  "results (abort_route st) = results st"
  "timers (abort_route st) = timers st"
  "console (abort_route st) = console st"
  "pending (abort_route st) = pending st"
  by (simp_all add: abort_route_def)

lemma stream_route_fields [simp]:
  "buffered (job (stream_route i st)) = buffered (job st)"
  "report (job (stream_route i st)) = report (job st)"
  "job_done (job (stream_route i st)) = job_done (job st)"
  "aborted (job (stream_route i st)) = aborted (job st)"
  "results (stream_route i st) = results st"
  "timers (stream_route i st) = timers st"
  "console (stream_route i st) = console st"
  "pending (stream_route i st) = pending st"
  by (simp_all add: stream_route_def Let_def)

lemma close_request_fields [simp]:
  "buffered (job (close_request i st)) = buffered (job st)"
  "report (job (close_request i st)) = report (job st)"
  "job_done (job (close_request i st)) = job_done (job st)"
  "aborted (job (close_request i st)) = aborted (job st)"
  "results (close_request i st) = results st"
  "timers (close_request i st) = timers st"
  "console (close_request i st) = console st"
  "pending (close_request i st) = pending st"
  by (simp_all add: close_request_def)

lemma serve_fields [simp]:
  "buffered (job (serve r st)) = buffered (job st) @ cancellations [r]"
  "aborted (job (serve r st)) = (aborted (job st) \<or> r = Abort)"
  "results (serve r st) = results st"
  "timers (serve r st) = timers st"
  "console (serve r st) = console st"
  "pending (serve r st) = pending st"
  by (cases r; simp add: cancellations_def)+

lemma cancellations_Cons: "cancellations (r # rs) = cancellations [r] @ cancellations rs"
  by (simp add: cancellations_def)

lemma fold_serve_fields [simp]:
  "buffered (job (fold serve batch st)) = buffered (job st) @ cancellations batch"
  "aborted (job (fold serve batch st)) = (aborted (job st) \<or> Abort \<in> set batch)"
  "results (fold serve batch st) = results st"
  "timers (fold serve batch st) = timers st"
  "console (fold serve batch st) = console st"
  "pending (fold serve batch st) = pending st"
proof (induction batch arbitrary: st)
  case Nil
  {
    case 1 show ?case by (simp add: cancellations_def)
  next
    case 2 show ?case by simp
  next
    case 3 show ?case by simp
  next
    case 4 show ?case by simp
  next
    case 5 show ?case by simp
  next
    case 6 show ?case by simp
  }
next
  case (Cons r batch)
  {
    case 1 show ?case using Cons.IH(1) [of "serve r st"] cancellations_Cons [of r batch] by simp
  next
    case 2 show ?case using Cons.IH(2) [of "serve r st"] by auto
  next
    case 3 show ?case using Cons.IH(3) [of "serve r st"] by simp
  next
    case 4 show ?case using Cons.IH(4) [of "serve r st"] by simp
  next
    case 5 show ?case using Cons.IH(5) [of "serve r st"] by simp
  next
    case 6 show ?case using Cons.IH(6) [of "serve r st"] by simp
  }
qed

lemma await_io_fields [simp]:
  "buffered (job (await_io st)) = buffered (job st) @ cancellations (arriving (pending st))"
  "aborted (job (await_io st)) = (aborted (job st) \<or> Abort \<in> set (arriving (pending st)))"
  "results (await_io st) = results st"
  "timers (await_io st) = timers st"
  "console (await_io st) = console st"
  "pending (await_io st) = tl (pending st)"
  by (simp_all add: await_io_def arriving_def cancellations_def split: list.splits)

lemma runTask_fields:
  "buffered (job (runTask w (i, s, r) st)) =
     (if aborted (job st) then buffered (job st)
      else buffered (job st) @ page_events w i s r (pending st))"
  "aborted (job (runTask w (i, s, r) st)) =
     (aborted (job st) \<or> Abort \<in> set (arriving (pending st)) \<or> Abort \<in> set (arriving (tl (pending st))))"
  "results (runTask w (i, s, r) st) =
     (if aborted (job st) then results st else (results st)[i := Some (pageResult w i s r)])"
  "timers (runTask w (i, s, r) st) = (if aborted (job st) then timers st else timers st @ [1000])"
  "console (runTask w (i, s, r) st) = console st"
  "pending (runTask w (i, s, r) st) = (if aborted (job st) then pending st else tl (tl (pending st)))"
  by (auto simp: runTask_def Let_def page_events_def split: sum.splits)

section \<open>The responses of the observers\<close>

lemma res_emit:
  "res (emit st ev) i = (if i \<in> listeners (job st) then listener (res st i) ev else res st i)"
  by (simp add: emit_def)

lemma res_endJob:
  "res (endJob st) i = (if i \<in> listeners (job st) then listener (res st i) Stream_end else res st i)"
  by (simp add: endJob_def Let_def res_emit)

lemma res_stream_route:
  "res (stream_route j st) i =
     (if i = j then \<lparr> written = buffered (job st), res_ended = job_done (job st) \<rparr> else res st i)"
  "listeners (job (stream_route j st)) =
     (if job_done (job st) then listeners (job st) else insert j (listeners (job st)))"
  by (simp_all add: stream_route_def Let_def)

lemma runTask_skipped: "aborted (job st) \<Longrightarrow> runTask w t st = st"
  by (cases t) (simp add: runTask_def)

text \<open>
  An observer that attaches to a job whose \<^verbatim>\<open>done\<close> is set gets the buffer as it is, its
  response is ended and it is no listener: what is emitted later does not reach it.
\<close>

lemma stream_route_done:
  assumes "job_done (job st)"
  shows "res (stream_route i st) i = \<lparr> written = buffered (job st), res_ended = True \<rparr>"
    and "listeners (job (stream_route i st)) = listeners (job st)"
    and "i \<notin> listeners (job st) \<Longrightarrow> res (emit (stream_route i st) ev) i = res (stream_route i st) i"
  using assms by (simp_all add: res_stream_route res_emit)

text \<open>
  The second half of \<open>runValidation\<close> ends with \<open>done\<close> and \<open>stream_end\<close> from every state, an
  aborted job included.
\<close>

lemma validatePages_ends_done:
  "\<exists>before sm. buffered (job (validatePages w b us st)) = before @ [Done sm, Stream_end]"
  by (simp add: validatePages_def Let_def)

section \<open>Runs without an abort\<close>

lemma no_abort_runTask:
  assumes "no_abort st"
  shows "no_abort (runTask w (i, s, r) st)"
    and "results (runTask w (i, s, r) st) = (results st)[i := Some (pageResult w i s r)]"
proof -
  from assms have na: "\<not> aborted (job st)" and nb: "\<forall>batch \<in> set (pending st). Abort \<notin> set batch"
    by (simp_all add: no_abort_def)
  have a1: "Abort \<notin> set (arriving (pending st))"
    using nb by (cases "pending st") (simp_all add: arriving_def)
  have a2: "Abort \<notin> set (arriving (tl (pending st)))"
  proof (cases "pending st")
    case Nil
    then show ?thesis by (simp add: arriving_def)
  next
    case (Cons b later)
    then show ?thesis using nb by (cases later) (simp_all add: arriving_def)
  qed
  have sub: "set (tl (tl (pending st))) \<subseteq> set (pending st)"
    by (cases "pending st"; cases "tl (pending st)") auto
  show "no_abort (runTask w (i, s, r) st)"
    using na nb a1 a2 sub by (auto simp: no_abort_def runTask_fields)
  show "results (runTask w (i, s, r) st) = (results st)[i := Some (pageResult w i s r)]"
    using na by (simp add: runTask_fields)
qed

lemma runTasks_no_abort:
  "no_abort st \<Longrightarrow>
     no_abort (runTasks w ts st) \<and> results (runTasks w ts st) = fold (store w) ts (results st)"
proof (induction ts arbitrary: st)
  case Nil
  then show ?case by (simp add: runTasks_def)
next
  case (Cons t ts)
  obtain i s r where t: "t = (i, s, r)" by (cases t) auto
  from Cons.prems have "no_abort (runTask w t st)"
    and "results (runTask w t st) = store w t (results st)"
    unfolding t by (simp_all add: no_abort_runTask store_def)
  with Cons.IH [of "runTask w t st"] show ?case
    by (simp add: runTasks_def)
qed

lemma fold_store_zip:
  "length xs \<le> length rs \<Longrightarrow>
     fold (store w) (zip [0..<length xs] xs) rs =
       map (\<lambda>(i, s, r). Some (pageResult w i s r)) (zip [0..<length xs] xs) @ drop (length xs) rs"
proof (induction xs rule: rev_induct)
  case Nil
  then show ?case by simp
next
  case (snoc x xs)
  obtain s r where x: "x = (s, r)" by (cases x) auto
  from snoc.prems have len: "length xs < length rs" by simp
  have z: "zip [0..<length (xs @ [x])] (xs @ [x]) = zip [0..<length xs] xs @ [(length xs, x)]"
    by simp
  have d: "drop (length xs) rs = rs ! length xs # drop (Suc (length xs)) rs"
    using len by (simp add: Cons_nth_drop_Suc)
  have l: "length (map (\<lambda>(i, s, r). Some (pageResult w i s r)) (zip [0..<length xs] xs)) = length xs"
    by simp
  have IH: "fold (store w) (zip [0..<length xs] xs) rs =
      map (\<lambda>(i, s, r). Some (pageResult w i s r)) (zip [0..<length xs] xs) @ drop (length xs) rs"
    using snoc.IH len by simp
  have "fold (store w) (zip [0..<length (xs @ [x])] (xs @ [x])) rs =
      store w (length xs, x) (fold (store w) (zip [0..<length xs] xs) rs)"
    unfolding z by simp
  also have "\<dots> = map (\<lambda>(i, s, r). Some (pageResult w i s r)) (zip [0..<length xs] xs) @
      (Some (pageResult w (length xs) s r) # drop (Suc (length xs)) rs)"
    unfolding IH by (simp add: store_def x list_update_append d del: upt_Suc)
  also have "\<dots> = map (\<lambda>(i, s, r). Some (pageResult w i s r)) (zip [0..<length (xs @ [x])] (xs @ [x])) @
      drop (length (xs @ [x])) rs"
    unfolding z by (simp add: x)
  finally show ?case .
qed

lemma fold_store_replicate:
  "fold (store w) (zip [0..<length xs] xs) (replicate (length xs) None) =
     map (\<lambda>(i, s, r). Some (pageResult w i s r)) (zip [0..<length xs] xs)"
  using fold_store_zip [of xs "replicate (length xs) None" w] by simp

lemma valid_results_Some: "valid_results (map Some rs) = rs"
  by (induction rs) (simp_all add: valid_results_def List.map_filter_simps)

lemma validatePages_no_abort:
  assumes "no_abort st"
  shows "results (validatePages w b us st) = map Some (page_results w us)"
    and "buffered (job (validatePages w b us st)) =
          buffered (job (runTasks w (zip [0..<length us] us)
            (emit st (Sitemap_done (length us) (map snd us))\<lparr> results := replicate (length us) None \<rparr>)))
          @ [Done (summarize w b (page_results w us)), Stream_end]"
proof -
  let ?st2 = "emit st (Sitemap_done (length us) (map snd us))\<lparr> results := replicate (length us) None \<rparr>"
  from assms have "no_abort ?st2"
    by (simp add: no_abort_def)
  then have r: "results (runTasks w (zip [0..<length us] us) ?st2) = map Some (page_results w us)"
    using runTasks_no_abort [of ?st2 w "zip [0..<length us] us"] fold_store_replicate [of w us]
    by (simp add: page_results_def comp_def case_prod_unfold)
  show "results (validatePages w b us st) = map Some (page_results w us)"
    using r by (simp add: validatePages_def Let_def)
  show "buffered (job (validatePages w b us st)) =
          buffered (job (runTasks w (zip [0..<length us] us) ?st2))
          @ [Done (summarize w b (page_results w us)), Stream_end]"
    using r by (simp add: validatePages_def Let_def valid_results_Some)
qed

lemma pageStatus_iff:
  "pageStatus msgs =
     (if \<exists>m \<in> set msgs. mtype m = Error then Errors
      else if \<exists>m \<in> set msgs. mtype m = Warning then Warnings
      else Clean)"
  by (auto simp: pageStatus_def count_type_def filter_empty_conv)

section \<open>Page events and timers of a run\<close>

lemma page_dones_simps [simp]:
  "page_dones [] = 0"
  "page_dones (ev # evs) = (if is_page_done ev then 1 else 0) + page_dones evs"
  "page_dones (xs @ ys) = page_dones xs + page_dones ys"
  by (simp_all add: page_dones_def)

lemma page_indices_simps [simp]:
  "page_indices [] = []"
  "page_indices (ev # evs) = (case page_index ev of None \<Rightarrow> [] | Some i \<Rightarrow> [i]) @ page_indices evs"
  "page_indices (xs @ ys) = page_indices xs @ page_indices ys"
  by (simp_all add: page_indices_def List.map_filter_def split: option.splits)

lemma cancellations_no_page [simp]:
  "page_dones (cancellations batch) = 0" "page_indices (cancellations batch) = []"
  by (induction batch) (simp_all add: cancellations_def)














section \<open>The counts of a summary\<close>

lemma summarize_counts:
  "pagesClean (summarize w b valid) + pagesWithWarnings (summarize w b valid) +
   pagesWithErrors (summarize w b valid) + pagesFailed (summarize w b valid) =
   totalPages (summarize w b valid)"
proof -
  have "count_status Clean valid + count_status Warnings valid + count_status Errors valid +
      count_status Failed valid = length valid"
  proof (induction valid)
    case Nil
    then show ?case by (simp add: count_status_def)
  next
    case (Cons r valid)
    then show ?case by (cases "status r") (simp_all add: count_status_def)
  qed
  then show ?thesis by (simp add: summarize_def)
qed

section \<open>The small world, evaluated\<close>

lemma demo_S_front:
  "xml ps = ''S'' \<Longrightarrow> base ps = [] \<Longrightarrow>
   runValidation e_world ps st =
   validatePages e_world ''https://e.com''
     [(''https://e.com/a'', ''https://e.com/a''), (''https://e.com/b'', ''https://e.com/b'')] st"
  by (simp add: runValidation_def parseUrlsFromXml_def e_world_def e_xml_def locs_def
      resolveSitemap_def trim_def getOrigin_def e_parse_def e_origin_def e_url_def
      resolveUrlToBase_def e_href_def)

lemma demo_T_front:
  "runValidation e_world (e_params ''T'') st =
   validatePages e_world ''https://e.com''
     [(''https://e.com/b'', ''https://e.com/b''), (''https://e.com/a'', ''https://e.com/a'')] st"
  by (simp add: runValidation_def parseUrlsFromXml_def e_world_def e_xml_def e_params_def locs_def
      resolveSitemap_def trim_def getOrigin_def e_parse_def e_origin_def e_url_def
      resolveUrlToBase_def e_href_def)

lemma demo_page_b:
  "validatePage e_world ''https://e.com/b'' = Inr [mapMessage e_warning]"
  by (simp add: validatePage_def isLocalhost_def validateUrl_def e_world_def e_parse_def e_url_def mapMessages_def)

lemma demo_page_a:
  "validatePage e_world ''https://e.com/a'' = Inl ''404''"
  by (simp add: validatePage_def isLocalhost_def validateUrl_def validateLocal_def fetchPageHtml_def
      e_world_def e_parse_def e_url_def e_get_def)

lemma demo_elapsed: "elapsed e_world i = 7" "now_iso e_world = ''T''"
  by (simp_all add: e_world_def)

lemma demo_warning: "mapMessage e_warning = \<lparr>mtype = Warning, message = ''w'', extract_text = None,
       firstLine = None, lastLine = None, firstColumn = None,
       lastColumn = None, subType = Some ''warning''\<rparr>"
  by (simp add: mapMessage_def e_warning_def normalizeType_def)

lemma tasks2: "zip [0..<length [x, y]] [x, y] = [(0, x), (1, y)]"
  by simp

lemma demo_S_run:
  "runValidation e_world (e_params ''S'') st =
   validatePages e_world ''https://e.com''
     [(''https://e.com/a'', ''https://e.com/a''), (''https://e.com/b'', ''https://e.com/b'')] st"
  by (rule demo_S_front) (simp_all add: e_params_def)

lemmas demo_run_simps =
  validatePages_def tasks2 runTasks_def runTask_fields page_events_def pageResult_def
  demo_page_b demo_page_a demo_elapsed demo_warning arriving_def cancellations_def
  start_def createJob_def summarize_def valid_results_def count_status_def total_type_def
  count_type_def pageStatus_def List.map_filter_def Let_def

section \<open>The checker adapter's message kinds\<close>

text \<open>
  C10. Every message of the adapter has one of the three kinds \<open>Error\<close>, \<open>Warning\<close>, \<open>Info\<close>
  (the type \<open>MessageType\<close> has no other value): a raw message of type \<^verbatim>\<open>error\<close> becomes
  \<open>Error\<close>, one of type \<^verbatim>\<open>info\<close> with subType \<^verbatim>\<open>warning\<close> becomes \<open>Warning\<close>, every other
  combination of type and subType becomes \<open>Info\<close>, and \<open>mapMessages\<close> gives each raw message
  the kind \<open>normalizeType\<close> computes from it, in order.
\<close>

theorem normalizeType_kinds:
  "normalizeType ''error'' st = Error \<and>
   normalizeType ''info'' (Some ''warning'') = Warning \<and>
   (t \<noteq> ''error'' \<and> \<not> (t = ''info'' \<and> st = Some ''warning'') \<longrightarrow> normalizeType t st = Info) \<and>
   map mtype (mapMessages data) = map (\<lambda>m. normalizeType (raw_type m) (raw_subType m)) data \<and>
   (\<forall>m \<in> set (mapMessages data). mtype m = Error \<or> mtype m = Warning \<or> mtype m = Info)"
proof -
  have kinds: "k = Error \<or> k = Warning \<or> k = Info" for k :: MessageType
    by (cases k) simp_all
  have "map mtype (mapMessages data) = map (\<lambda>m. normalizeType (raw_type m) (raw_subType m)) data"
    by (simp add: mapMessages_def mapMessage_def)
  then show ?thesis
    using kinds by (simp add: normalizeType_def)
qed

theorem normalizeType_kinds_witness:
  "normalizeType ''non-document-error'' (Some ''io'') = Info \<and>
   map mtype (mapMessages [e_warning]) = [Warning]"
proof -
  note k = normalizeType_kinds [of "Some ''io''" "''non-document-error''" "[e_warning]"]
  from k have "normalizeType ''non-document-error'' (Some ''io'') = Info"
    by simp
  moreover from k have "map mtype (mapMessages [e_warning]) =
      [normalizeType (raw_type e_warning) (raw_subType e_warning)]"
    by simp
  moreover from k have "normalizeType (raw_type e_warning) (raw_subType e_warning) = Warning"
    by (simp add: e_warning_def)
  ultimately show ?thesis
    by simp
qed

section \<open>The URL resolver\<close>



section \<open>The depth bound of the recursive resolver\<close>

lemma extractUrlsFromSitemap_beyond:
  "MAX_DEPTH < depth \<Longrightarrow> extractUrlsFromSitemap w u depth = Inr []"
  by (simp add: extractUrlsFromSitemap.simps)

text \<open>
  C4. \<open>MAX_DEPTH\<close> is 3. A call of \<open>extractUrlsFromSitemap\<close> at a depth beyond it returns the
  empty list whatever the sitemap is, without fetching and without an error; and in the
  loop over the entries of an index at depth \<open>MAX_DEPTH\<close> or more, an entry contributes no
  URL and the loop goes on with the entries that remain.
\<close>

theorem depth_bound:
  "MAX_DEPTH = 3 \<and>
   (MAX_DEPTH < depth \<longrightarrow> extractUrlsFromSitemap w u depth = Inr []) \<and>
   (MAX_DEPTH \<le> depth \<longrightarrow>
      extractNested w (e # es) depth urls = extractNested w es depth urls)"
  by (cases "loc e") (simp_all add: MAX_DEPTH_def extractUrlsFromSitemap_beyond)

theorem depth_bound_witness:
  "extractUrlsFromSitemap e_world ''https://e.com/s.xml'' 4 = Inr [] \<and>
   extractNested e_world [\<lparr> loc = Some ''https://e.com/s.xml'' \<rparr>] 3 [] = Inr []"
proof -
  have beyond: "MAX_DEPTH < 4" and at_bound: "MAX_DEPTH \<le> 3"
    by (simp_all add: MAX_DEPTH_def)
  from depth_bound [of 4 e_world "''https://e.com/s.xml''" "\<lparr> loc = Some ''https://e.com/s.xml'' \<rparr>" "[]" "[]"]
    beyond
  have "extractUrlsFromSitemap e_world ''https://e.com/s.xml'' 4 = Inr []"
    by blast
  moreover
  from depth_bound [of 3 e_world "''https://e.com/s.xml''" "\<lparr> loc = Some ''https://e.com/s.xml'' \<rparr>" "[]" "[]"]
    at_bound
  have "extractNested e_world [\<lparr> loc = Some ''https://e.com/s.xml'' \<rparr>] 3 [] =
        extractNested e_world [] 3 []"
    by blast
  ultimately show ?thesis
    by (simp only: extractNested.simps(1))
qed

section \<open>The outcome of a page task\<close>

text \<open>
  C7. When the checker answers for a page, the result holds its messages and the status
  is \<open>errors\<close> if a message of kind error is among them, else \<open>warnings\<close> if one of kind
  warning is, else \<open>clean\<close>. When the check fails, the status is \<open>failed\<close>, the messages are
  empty and \<open>errorMessage\<close> is the description of the failure. Neither ends the job: in a
  run in which no abort arrives every page of the list gets its result, failed or not,
  and the buffer ends with \<open>done\<close>, whose summary counts all pages, and \<open>stream_end\<close>.
\<close>

theorem page_task_outcome:
  "(validatePage w r = Inr msgs \<longrightarrow>
      messages (pageResult w i s r) = msgs \<and>
      errorMessage (pageResult w i s r) = None \<and>
      status (pageResult w i s r) =
        (if \<exists>m \<in> set msgs. mtype m = Error then Errors
         else if \<exists>m \<in> set msgs. mtype m = Warning then Warnings
         else Clean)) \<and>
   (validatePage w r = Inl err \<longrightarrow>
      status (pageResult w i s r) = Failed \<and>
      messages (pageResult w i s r) = [] \<and>
      errorMessage (pageResult w i s r) = Some err) \<and>
   (no_abort st \<longrightarrow>
      results (validatePages w b us st) = map Some (page_results w us) \<and>
      (\<exists>before. buffered (job (validatePages w b us st)) =
          before @ [Done (summarize w b (page_results w us)), Stream_end]) \<and>
      totalPages (summarize w b (page_results w us)) = length us)"
proof (intro conjI impI)
  assume ok: "validatePage w r = Inr msgs"
  then show "messages (pageResult w i s r) = msgs"
    and "errorMessage (pageResult w i s r) = None"
    by (simp_all add: pageResult_def)
  from ok show "status (pageResult w i s r) =
      (if \<exists>m \<in> set msgs. mtype m = Error then Errors
       else if \<exists>m \<in> set msgs. mtype m = Warning then Warnings
       else Clean)"
    by (simp add: pageResult_def pageStatus_iff)
next
  assume "validatePage w r = Inl err"
  then show "status (pageResult w i s r) = Failed"
    and "messages (pageResult w i s r) = []"
    and "errorMessage (pageResult w i s r) = Some err"
    by (simp_all add: pageResult_def)
next
  assume na: "no_abort st"
  then show "results (validatePages w b us st) = map Some (page_results w us)"
    by (rule validatePages_no_abort(1))
  from validatePages_no_abort(2) [OF na]
  show "\<exists>before. buffered (job (validatePages w b us st)) =
      before @ [Done (summarize w b (page_results w us)), Stream_end]"
    by blast
  show "totalPages (summarize w b (page_results w us)) = length us"
    by (simp add: summarize_def page_results_def)
qed

theorem page_task_outcome_witness:
  "status (pageResult e_world 0 ''https://e.com/a'' ''https://e.com/a'') = Failed \<and>
   messages (pageResult e_world 0 ''https://e.com/a'' ''https://e.com/a'') = [] \<and>
   errorMessage (pageResult e_world 0 ''https://e.com/a'' ''https://e.com/a'') = Some ''404'' \<and>
   status (pageResult e_world 1 ''https://e.com/b'' ''https://e.com/b'') = Warnings \<and>
   map (map_option status) (results (runValidation e_world (e_params ''S'') (start []))) =
     [Some Failed, Some Warnings] \<and>
   (\<exists>before sm. buffered (job (runValidation e_world (e_params ''S'') (start []))) =
       before @ [Done sm, Stream_end] \<and> totalPages sm = 2 \<and> pagesFailed sm = 1)"
proof -
  let ?a = "''https://e.com/a''" and ?b = "''https://e.com/b''"
  let ?us = "[(?a, ?a), (?b, ?b)]"
  have na: "no_abort (start [])"
    by (simp add: no_abort_def start_def createJob_def)
  have b_kinds: "(\<exists>m \<in> set [mapMessage e_warning]. mtype m = Error) = False"
    "(\<exists>m \<in> set [mapMessage e_warning]. mtype m = Warning) = True"
    by (simp_all add: demo_warning)
  note a = page_task_outcome [of e_world ?a "[]" 0 ?a "''404''" "start []" "''https://e.com''" ?us]
  note b = page_task_outcome [of e_world ?b "[mapMessage e_warning]" 1 ?b "''500''" "start []" "''https://e.com''" ?us]
  from a demo_page_a have fa: "status (pageResult e_world 0 ?a ?a) = Failed"
    "messages (pageResult e_world 0 ?a ?a) = []"
    "errorMessage (pageResult e_world 0 ?a ?a) = Some ''404''"
    by simp_all
  from b demo_page_b b_kinds have fb: "status (pageResult e_world 1 ?b ?b) = Warnings"
    by simp
  from fb have fb': "status (pageResult e_world (Suc 0) ?b ?b) = Warnings"
    by simp
  have pr: "page_results e_world ?us = [pageResult e_world 0 ?a ?a, pageResult e_world 1 ?b ?b]"
    by (simp add: page_results_def)
  from a na have run: "results (validatePages e_world ''https://e.com'' ?us (start [])) =
      map Some (page_results e_world ?us)"
    and fin: "\<exists>before. buffered (job (validatePages e_world ''https://e.com'' ?us (start []))) =
      before @ [Done (summarize e_world ''https://e.com'' (page_results e_world ?us)), Stream_end]"
    by simp_all
  have sm: "totalPages (summarize e_world ''https://e.com'' (page_results e_world ?us)) = 2"
    "pagesFailed (summarize e_world ''https://e.com'' (page_results e_world ?us)) = 1"
    by (simp_all add: pr summarize_def count_status_def fa fb')
  from fin sm have "\<exists>before sm. buffered (job (runValidation e_world (e_params ''S'') (start []))) =
       before @ [Done sm, Stream_end] \<and> totalPages sm = 2 \<and> pagesFailed sm = 1"
    unfolding demo_S_run by blast
  moreover have "map (map_option status) (results (runValidation e_world (e_params ''S'') (start []))) =
     [Some Failed, Some Warnings]"
    unfolding demo_S_run run pr by (simp add: fa fb')
  ultimately show ?thesis
    using fa fb by blast
qed

section \<open>Concurrency and pacing\<close>




section \<open>Events after an abort\<close>

text \<open>
  C1. The claim is that once \<open>done\<close>, \<open>cancelled\<close> or a fatal \<open>error\<close> has been emitted nothing
  more is appended to the buffer of the job, and that no \<open>done\<close> follows an abort. The
  code does not keep it. In the run below the sitemap lists two pages and the abort
  arrives while the checker works on page 0: the abort route appends \<open>cancelled\<close> and
  \<open>stream_end\<close> at once, the task in flight then appends \<open>page_validating\<close> and \<open>page_done\<close>,
  task 1 is skipped, and \<open>runValidation\<close>, which tests \<^verbatim>\<open>job.aborted\<close> nowhere after
  \<^verbatim>\<open>Promise.all\<close>, appends \<open>done\<close> with a summary and a second \<open>stream_end\<close>.
\<close>

theorem events_after_abort:
  "buffered (job (runValidation e_world (e_params ''T'') (start [[Abort]]))) =
     [Sitemap_done 2 [''https://e.com/b'', ''https://e.com/a''],
      Page_fetching 0 ''https://e.com/b'',
      Cancelled, Stream_end,
      Page_validating 0 ''https://e.com/b'',
      Page_done 0 ''https://e.com/b'' Warnings
        [\<lparr> mtype = Warning, message = ''w'', extract_text = None, firstLine = None,
         lastLine = None, firstColumn = None, lastColumn = None, subType = Some ''warning'' \<rparr>]
        (Some 7) None,
      Done \<lparr> totalPages = 1, pagesWithErrors = 0, pagesWithWarnings = 1, pagesClean = 0,
             pagesFailed = 0, totalErrors = 0, totalWarnings = 1, totalInfos = 0,
             generatedAt = ''T'', sitemapUrl = ''https://e.com'' \<rparr>,
      Stream_end]"
  unfolding demo_T_front by (simp add: demo_run_simps del: length_Cons)

section \<open>Repeated aborts\<close>




section \<open>Nested sitemap indexes in the server\<close>

text \<open>
  C3. The claim is that for a root that is a sitemap index every nested sitemap is
  fetched, parsed recursively and flattened, with one \<open>sitemapindex_fetching\<close> followed by
  one \<open>sitemapindex_fetched\<close> or \<open>sitemapindex_fetch_error\<close> for each. The loop of
  \<open>runValidation\<close> does not recurse: a nested document that is itself an index passes
  \<^verbatim>\<open>if (nested.kind === 'urls')\<close> by, so that after its \<open>sitemapindex_fetching\<close> nothing is
  emitted for it and none of its URLs is collected. Here the root names \<^verbatim>\<open>j.xml\<close>, an index
  that names the sitemap of the two pages: the job ends with \<open>sitemap_error\<close>, while the
  recursive resolver of the command line, \<open>extractUrlsFromSitemap\<close>, finds both pages from
  the same root.
\<close>

theorem nested_index_dropped:
  "buffered (job (runValidation e_world (e_params ''I'') (start []))) =
     [Sitemapindex_resolving 1 [''https://e.com/j.xml''],
      Sitemapindex_fetching ''https://e.com/j.xml'',
      Sitemapindex_resolved 0,
      Sitemap_error ''No <url> entries found in the sitemap XML.'',
      Stream_end] \<and>
   extractUrlsFromSitemap e_world ''https://e.com/i.xml'' 0 =
     Inr [''https://e.com/a'', ''https://e.com/b'']"
proof
  show "buffered (job (runValidation e_world (e_params ''I'') (start []))) =
     [Sitemapindex_resolving 1 [''https://e.com/j.xml''],
      Sitemapindex_fetching ''https://e.com/j.xml'',
      Sitemapindex_resolved 0,
      Sitemap_error ''No <url> entries found in the sitemap XML.'',
      Stream_end]"
    by (simp add: runValidation_def parseUrlsFromXml_def e_world_def e_xml_def e_params_def
        locs_def resolveSitemap_def e_get_def Let_def start_def createJob_def arriving_def
        cancellations_def)
  show "extractUrlsFromSitemap e_world ''https://e.com/i.xml'' 0 =
     Inr [''https://e.com/a'', ''https://e.com/b'']"
    by (simp add: extractUrlsFromSitemap.simps MAX_DEPTH_def e_world_def e_get_def e_xml_def
        locs_def)
qed

section \<open>The summary of an aborted run\<close>


section \<open>An observer that attaches to an aborted job\<close>

text \<open>
  C9. The claim is that an observer attached to a terminal job receives at once the whole
  buffer, ending in the terminal event, and no live event. The stream route does replay
  the buffer and end the response when \<^verbatim>\<open>job.done\<close> is set, without adding a listener. But
  the buffer of a job whose \<^verbatim>\<open>done\<close> is set need not end in a terminal event, because
  \<open>runValidation\<close> goes on emitting after an abort. Here the abort arrives while
  page 0 is checked and connection 7 attaches during the pause after it: the replay ends
  with \<open>page_done\<close>, after \<open>cancelled\<close> and \<open>stream_end\<close>; the response is ended and is no
  listener, so the \<open>done\<close> and the second \<open>stream_end\<close> that follow never reach it.
\<close>

theorem replay_after_abort:
 "written (res (runValidation e_world (e_params ''T'') (start [[Abort], [Stream 7]])) 7) =
   [Sitemap_done 2 [''https://e.com/b'', ''https://e.com/a''],
    Page_fetching 0 ''https://e.com/b'', Cancelled, Stream_end,
    Page_validating 0 ''https://e.com/b'',
    Page_done 0 ''https://e.com/b'' Warnings
     [\<lparr>mtype = Warning, message = ''w'', extract_text = None,
         firstLine = None, lastLine = None, firstColumn = None,
         lastColumn = None, subType = Some ''warning''\<rparr>]
     (Some 7) None] \<and>
  res_ended (res (runValidation e_world (e_params ''T'') (start [[Abort], [Stream 7]])) 7) \<and>
  7 \<notin> listeners (job (runValidation e_world (e_params ''T'') (start [[Abort], [Stream 7]])))"
proof -
  let ?b = "''https://e.com/b''" and ?a = "''https://e.com/a''"
  let ?us = "[(?b, ?b), (?a, ?a)]"
  let ?st2 = "emit (start [[Abort], [Stream 7]]) (Sitemap_done (length ?us) (map snd ?us))
                \<lparr> results := replicate (length ?us) None \<rparr>"
  let ?st3 = "runTask e_world (0, ?b, ?b) ?st2"
  have ab: "aborted (job ?st3)"
    by (simp add: runTask_fields start_def createJob_def arriving_def)
  have l3: "listeners (job ?st3) = {}"
    by (simp add: runTask_def Let_def demo_page_b await_io_def start_def createJob_def abort_route_def
        res_stream_route)
  have r3: "res ?st3 7 =
      \<lparr> written = [Sitemap_done 2 [?b, ?a], Page_fetching 0 ?b, Cancelled, Stream_end,
          Page_validating 0 ?b,
          Page_done 0 ?b Warnings
           [\<lparr>mtype = Warning, message = ''w'', extract_text = None,
               firstLine = None, lastLine = None, firstColumn = None,
               lastColumn = None, subType = Some ''warning''\<rparr>]
           (Some 7) None],
        res_ended = True \<rparr>"
    by (simp add: runTask_def Let_def demo_page_b pageResult_def demo_elapsed demo_warning
        pageStatus_def count_type_def await_io_def start_def createJob_def abort_route_def
        res_stream_route)
  have fin: "runValidation e_world (e_params ''T'') (start [[Abort], [Stream 7]]) =
      endJob (emit (?st3\<lparr> job := (job ?st3)\<lparr> report := Some (generateHtmlReport e_world
          \<lparr> summary = summarize e_world ''https://e.com'' (valid_results (results ?st3)),
            pages = valid_results (results ?st3) \<rparr>) \<rparr> \<rparr>)
        (Done (summarize e_world ''https://e.com'' (valid_results (results ?st3)))))"
    unfolding demo_T_front validatePages_def Let_def tasks2 runTasks_def
    by (simp only: fold_simps runTask_skipped [OF ab] comp_def id_def)
  show ?thesis
    unfolding fin using l3 r3 by (simp add: res_endJob res_emit)
qed

end
